theory Spec2Isabelle
  imports Main
begin

section \<open>CheckSessionService (lib/iframe/check-session.service.ts)\<close>

text \<open>
  The service is a class with five mutable fields, driven by three kinds of callbacks:
  the heartbeat timer, the \<open>onload\<close> handler of the hidden iframe and the window's
  \<open>message\<close> listener. The model threads one record through every method. The record
  holds the fields of the class and, next to them, the part of the browser the methods
  act on: the iframe element, the registered listeners, the pending timeouts, and the
  traces of what was logged, fired, posted and published.
\<close>

subsection \<open>Values of the untyped parameters\<close>

text \<open>
  \<open>messageHandler(e: any, configId: string)\<close> is registered through
  \<open>this.messageHandler.bind(this, configId)\<close>, so at run time its two parameters hold
  either a string or a message event. \<open>jsval\<close> is the type of both.
  A window reference is \<open>undefined\<close> (a property that does not exist), \<open>null\<close> or a
  window.
\<close>

datatype winref = RUndefined | RNull | RWindow nat

record message_event =
  origin :: string
  source :: winref
  data :: string

datatype jsval = JStr string | JEvent message_event

text \<open>\<open>e.origin\<close>, \<open>e.source\<close>, \<open>e.data\<close>: a string has none of these properties.\<close>

fun get_origin :: "jsval \<Rightarrow> string option" where
  "get_origin (JStr _) = None"
| "get_origin (JEvent m) = Some (origin m)"

fun get_source :: "jsval \<Rightarrow> winref" where
  "get_source (JStr _) = RUndefined"
| "get_source (JEvent m) = source m"

fun get_data :: "jsval \<Rightarrow> string option" where
  "get_data (JStr _) = None"
| "get_data (JEvent m) = Some (data m)"

text \<open>\<open>String.prototype.startsWith\<close> converts its argument to a string first.\<close>

fun searchString :: "string option \<Rightarrow> string" where
  "searchString None = ''undefined''"
| "searchString (Some x) = x"

definition startsWith :: "string \<Rightarrow> string \<Rightarrow> bool" where
  "startsWith str x = (take (length x) str = x)"

text \<open>Truthiness of a possibly absent string, and of a timer handle.\<close>

fun truthy :: "string option \<Rightarrow> bool" where
  "truthy None = False"
| "truthy (Some x) = (x \<noteq> [])"

fun truthy_handle :: "nat option \<Rightarrow> bool" where
  "truthy_handle None = False"
| "truthy_handle (Some h) = (h \<noteq> 0)"

subsection \<open>Collaborators\<close>

text \<open>
  \<open>cfgClientId\<close> is the \<open>clientId\<close> field of a configuration.
  \<open>ConfigurationProvider\<close>, \<open>StoragePersistenceService\<close> and the platform's \<open>URL\<close>
  parser are not part of this file; every method takes them as the parameter \<open>env\<close>.
  The storage is keyed by whatever value the caller passes as \<open>configId\<close>.
  \<open>urlOrigin\<close> is \<open>new URL(x).origin\<close>; \<open>None\<close> is the \<open>TypeError\<close> of an invalid URL.
\<close>

record open_id_configuration =
  startCheckSession :: bool
  cfgClientId :: string

record auth_well_known =
  checkSessionIframe :: "string option"

record env =
  getOpenIDConfiguration :: "string \<Rightarrow> open_id_configuration"
  readAuthWellKnownEndPoints :: "jsval \<Rightarrow> auth_well_known option"
  readSessionState :: "jsval \<Rightarrow> string option"
  urlOrigin :: "string \<Rightarrow> string option"
  newFrameWindow :: nat

text \<open>\<open>authWellKnownEndPoints?.checkSessionIframe\<close>\<close>

fun checkSessionIframeOf :: "auth_well_known option \<Rightarrow> string option" where
  "checkSessionIframeOf None = None"
| "checkSessionIframeOf (Some wk) = checkSessionIframe wk"

subsection \<open>State\<close>

datatype loglevel = Debug | Warning | Error

text \<open>
  The iframe element: its content window, the URL it was last pointed at, and its
  \<open>onload\<close> handler. The handler closes over the subscriber of the observable returned
  by \<open>init\<close> and, through it, over the \<open>clientId\<close> and \<open>configId\<close> of the tick that
  subscribed; the flag says whether that subscriber is still open (\<open>take(1)\<close> closes it
  after the first value).
\<close>

record iframe =
  contentWindow :: nat
  location :: "string option"
  onload :: "(bool \<times> string \<times> string) option"

record service =
  checkSessionReceived :: bool
  scheduledHeartBeatRunning :: "nat option"
  lastIFrameRefresh :: nat
  outstandingMessages :: nat
  published :: "bool list"
  existingIFrame :: "iframe option"
  listeners :: "string list"
  timers :: "(nat \<times> nat \<times> string \<times> string) list"
  nextTimer :: nat
  logs :: "(loglevel \<times> string) list"
  fired :: "string option list"
  posted :: "(string \<times> string) list"
  faults :: "string list"

text \<open>
  \<open>published\<close> lists the values passed to \<open>checkSessionChangedInternal$.next\<close>, newest
  first; the subject starts at \<open>false\<close> and replays its latest value.
  \<open>timers\<close> lists the pending timeouts as (handle, delay, clientId, configId), the last
  two being what the closure \<open>pollServerSessionRecur\<close> captured.
  \<open>fired\<close> lists the payloads of the \<open>CheckSessionReceived\<close> events, \<open>posted\<close> the
  (message, target origin) pairs given to \<open>postMessage\<close>, \<open>faults\<close> the exceptions that
  escaped a callback. A log entry keeps the level and the fixed part of the message.
\<close>

definition heartBeatInterval :: nat where
  "heartBeatInterval = 3000"

definition iframeRefreshInterval :: nat where
  "iframeRefreshInterval = 60000"

definition initialService :: service where
  "initialService =
     \<lparr>checkSessionReceived = False, scheduledHeartBeatRunning = None,
      lastIFrameRefresh = 0, outstandingMessages = 0, published = [],
      existingIFrame = None, listeners = [], timers = [], nextTimer = 1,
      logs = [], fired = [], posted = [], faults = []\<rparr>"

fun checkSessionChanged :: "service \<Rightarrow> bool" where
  "checkSessionChanged s = (case published s of [] \<Rightarrow> False | b # _ \<Rightarrow> b)"

definition logAt :: "loglevel \<Rightarrow> string \<Rightarrow> service \<Rightarrow> service" where
  "logAt lvl msg s = s\<lparr>logs := (lvl, msg) # logs s\<rparr>"

definition nextChanged :: "bool \<Rightarrow> service \<Rightarrow> service" where
  "nextChanged b s = s\<lparr>published := b # published s\<rparr>"

definition fireEvent :: "string option \<Rightarrow> service \<Rightarrow> service" where
  "fireEvent payload s = s\<lparr>fired := payload # fired s\<rparr>"

definition postMessage :: "string \<Rightarrow> string \<Rightarrow> service \<Rightarrow> service" where
  "postMessage msg targetOrigin s = s\<lparr>posted := (msg, targetOrigin) # posted s\<rparr>"

definition errorCount :: "service \<Rightarrow> nat" where
  "errorCount s = length (filter (\<lambda>l. fst l = Error) (logs s))"

subsection \<open>Methods\<close>

definition isCheckSessionConfigured :: "env \<Rightarrow> string \<Rightarrow> bool" where
  "isCheckSessionConfigured env configId =
     startCheckSession (getOpenIDConfiguration env configId)"

definition serverStateChanged :: "env \<Rightarrow> string \<Rightarrow> service \<Rightarrow> bool" where
  "serverStateChanged env configId s =
     (startCheckSession (getOpenIDConfiguration env configId) \<and> checkSessionReceived s)"

definition clearScheduledHeartBeat :: "service \<Rightarrow> service" where
  "clearScheduledHeartBeat s =
     s\<lparr>timers := filter (\<lambda>t. Some (fst t) \<noteq> scheduledHeartBeatRunning s) (timers s),
       scheduledHeartBeatRunning := None\<rparr>"

definition stop :: "service \<Rightarrow> service" where
  "stop s =
     (if \<not> truthy_handle (scheduledHeartBeatRunning s) then s
      else (clearScheduledHeartBeat s)\<lparr>checkSessionReceived := False\<rparr>)"

text \<open>
  \<open>messageHandler(e, configId)\<close>. The counter is reset before anything is validated.
\<close>

definition originMatches :: "env \<Rightarrow> jsval \<Rightarrow> jsval \<Rightarrow> bool" where
  "originMatches env e configId =
     (case checkSessionIframeOf (readAuthWellKnownEndPoints env configId) of
        None \<Rightarrow> False
      | Some url \<Rightarrow> startsWith url (searchString (get_origin e)))"

definition sourceMatches :: "jsval \<Rightarrow> service \<Rightarrow> bool" where
  "sourceMatches e s =
     (case existingIFrame s of
        None \<Rightarrow> False
      | Some f \<Rightarrow> get_source e = RWindow (contentWindow f))"

definition messageHandler :: "env \<Rightarrow> jsval \<Rightarrow> jsval \<Rightarrow> service \<Rightarrow> service" where
  "messageHandler env e configId s =
     (let s1 = s\<lparr>outstandingMessages := 0\<rparr>
      in if originMatches env e configId \<and> sourceMatches e s then
           if get_data e = Some ''error'' then
             logAt Warning ''error from check session messageHandler'' s1
           else if get_data e = Some ''changed'' then
             nextChanged True
               (fireEvent (get_data e)
                 ((logAt Debug '' from check session messageHandler'' s1)
                    \<lparr>checkSessionReceived := True\<rparr>))
           else
             logAt Debug '' from checksession messageHandler'' (fireEvent (get_data e) s1)
         else s1)"

text \<open>
  \<open>bindMessageEventToIframe(configId)\<close> registers \<open>messageHandler.bind(this, configId)\<close>:
  the bound value is the FIRST argument of every later call, the event the second.
  \<open>deliverMessage\<close> is the window dispatching one message event to its listeners.
\<close>

definition bindMessageEventToIframe :: "string \<Rightarrow> service \<Rightarrow> service" where
  "bindMessageEventToIframe configId s = s\<lparr>listeners := listeners s @ [configId]\<rparr>"

definition iframeMessageEvent :: "env \<Rightarrow> string \<Rightarrow> message_event \<Rightarrow> service \<Rightarrow> service" where
  "iframeMessageEvent env bound ev s = messageHandler env (JStr bound) (JEvent ev) s"

definition deliverMessage :: "env \<Rightarrow> message_event \<Rightarrow> service \<Rightarrow> service" where
  "deliverMessage env ev s = foldl (\<lambda>st bound. iframeMessageEvent env bound ev st) s (listeners s)"

definition getOrCreateIframe :: "env \<Rightarrow> string \<Rightarrow> service \<Rightarrow> service" where
  "getOrCreateIframe env configId s =
     (case existingIFrame s of
        None \<Rightarrow>
          bindMessageEventToIframe configId
            (s\<lparr>existingIFrame :=
                 Some \<lparr>contentWindow = newFrameWindow env, location = None, onload = None\<rparr>\<rparr>)
      | Some f \<Rightarrow> s)"

definition locationReplace :: "string \<Rightarrow> service \<Rightarrow> service" where
  "locationReplace url s =
     s\<lparr>existingIFrame := map_option (\<lambda>f. f\<lparr>location := Some url\<rparr>) (existingIFrame s)\<rparr>"

text \<open>
  \<open>init(configId)\<close> returns an observable. \<open>Emits\<close> is \<open>of(undefined)\<close>: one value, at
  once. \<open>Completes\<close> is \<open>of()\<close>: no value, so a subscriber's \<open>next\<close> callback never
  runs. \<open>OnLoad\<close> is the observable that emits when the iframe's \<open>onload\<close> fires.
\<close>

datatype ready = Emits | Completes | OnLoad

definition init :: "env \<Rightarrow> nat \<Rightarrow> string \<Rightarrow> service \<Rightarrow> ready \<times> service" where
  "init env now configId s =
     (if lastIFrameRefresh s + iframeRefreshInterval > now then (Emits, s)
      else
        (case readAuthWellKnownEndPoints env (JStr configId) of
           None \<Rightarrow>
             (Completes,
              logAt Warning ''init check session: authWellKnownEndpoints is undefined. Returning.'' s)
         | Some wk \<Rightarrow>
             (let s1 = getOrCreateIframe env configId s
              in (OnLoad,
                  (case checkSessionIframe wk of
                     None \<Rightarrow>
                       logAt Warning ''init check session: checkSessionIframe is not configured to run'' s1
                   | Some url \<Rightarrow>
                       if url \<noteq> [] then locationReplace url s1
                       else logAt Warning ''init check session: checkSessionIframe is not configured to run'' s1)))))"

text \<open>
  The body of the \<open>subscribe\<close> callback of \<open>pollServerSessionRecur\<close>, in three steps.
  \<open>sendProbe\<close> is the first \<open>if\<close>; \<open>Inl\<close> carries the state at the point where
  \<open>new URL\<close> threw, which is before the counter is incremented.
\<close>

definition noSessionState :: "service \<Rightarrow> service" where
  "noSessionState s = nextChanged True (logAt Debug ''session_state is - AuthWellKnownEndPoints is'' s)"

definition sendProbe :: "env \<Rightarrow> string \<Rightarrow> string \<Rightarrow> service \<Rightarrow> service + service" where
  "sendProbe env clientId configId s =
     (if existingIFrame s \<noteq> None \<and> clientId \<noteq> [] then
        (let s1 = logAt Debug ''clientId : - existingIframe: '' s;
             sessionState = readSessionState env (JStr configId);
             authWellKnownEndPoints = readAuthWellKnownEndPoints env (JStr configId)
         in (case (sessionState, checkSessionIframeOf authWellKnownEndPoints) of
               (Some st, Some url) \<Rightarrow>
                 if st \<noteq> [] \<and> url \<noteq> [] then
                   (case urlOrigin env url of
                      None \<Rightarrow> Inl s1
                    | Some iframeOrigin \<Rightarrow>
                        Inr (postMessage (clientId @ '' '' @ st) iframeOrigin
                              (s1\<lparr>outstandingMessages := Suc (outstandingMessages s1)\<rparr>)))
                 else Inr (noSessionState s1)
             | _ \<Rightarrow> Inr (noSessionState s1)))
      else
        Inr (logAt Debug ''clientId : - existingIframe: ''
              (logAt Warning
                 ''OidcSecurityCheckSession pollServerSession checkSession IFrame does not exist'' s)))"

definition escalate :: "service \<Rightarrow> service" where
  "escalate s =
     (if outstandingMessages s > 3 then
        logAt Error ''OidcSecurityCheckSession not receiving check session response messages.'' s
      else s)"

definition scheduleHeartBeat :: "string \<Rightarrow> string \<Rightarrow> service \<Rightarrow> service" where
  "scheduleHeartBeat clientId configId s =
     s\<lparr>scheduledHeartBeatRunning := Some (nextTimer s),
       timers := (nextTimer s, heartBeatInterval, clientId, configId) # timers s,
       nextTimer := Suc (nextTimer s)\<rparr>"

definition onReady :: "env \<Rightarrow> string \<Rightarrow> string \<Rightarrow> service \<Rightarrow> service" where
  "onReady env clientId configId s =
     (case sendProbe env clientId configId s of
        Inl s1 \<Rightarrow> s1\<lparr>faults := ''TypeError: Invalid URL'' # faults s1\<rparr>
      | Inr s1 \<Rightarrow> scheduleHeartBeat clientId configId (escalate s1))"

definition setOnload :: "bool \<times> string \<times> string \<Rightarrow> service \<Rightarrow> service" where
  "setOnload h s =
     s\<lparr>existingIFrame := map_option (\<lambda>f. f\<lparr>onload := Some h\<rparr>) (existingIFrame s)\<rparr>"

definition pollServerSessionRecur :: "env \<Rightarrow> nat \<Rightarrow> string \<Rightarrow> string \<Rightarrow> service \<Rightarrow> service" where
  "pollServerSessionRecur env now clientId configId s =
     (case init env now configId s of
        (Emits, s1) \<Rightarrow> onReady env clientId configId s1
      | (Completes, s1) \<Rightarrow> s1
      | (OnLoad, s1) \<Rightarrow> setOnload (True, clientId, configId) s1)"

text \<open>\<open>pollServerSession(clientId, configId)\<close>: parameters in the order of the declaration.\<close>

definition pollServerSession :: "env \<Rightarrow> nat \<Rightarrow> string \<Rightarrow> string \<Rightarrow> service \<Rightarrow> service" where
  "pollServerSession env now clientId configId s =
     pollServerSessionRecur env now clientId configId (s\<lparr>outstandingMessages := 0\<rparr>)"

text \<open>
  \<open>start(configId)\<close> calls \<open>this.pollServerSession(configId, clientId)\<close>: the arguments
  are in the order written at the call.
\<close>

definition start :: "env \<Rightarrow> nat \<Rightarrow> string \<Rightarrow> service \<Rightarrow> service" where
  "start env now configId s =
     (if truthy_handle (scheduledHeartBeatRunning s) then s
      else pollServerSession env now configId
             (cfgClientId (getOpenIDConfiguration env configId)) s)"

subsection \<open>Callbacks from the browser\<close>

text \<open>
  The timeout with handle \<open>h\<close> expires at time \<open>now\<close>: it leaves the pending list and
  runs \<open>pollServerSessionRecur\<close> with what it captured. A cleared handle does nothing.
\<close>

definition timerFires :: "env \<Rightarrow> nat \<Rightarrow> nat \<Rightarrow> service \<Rightarrow> service" where
  "timerFires env now h s =
     (case find (\<lambda>t. fst t = h) (timers s) of
        None \<Rightarrow> s
      | Some (h', delay, clientId, configId) \<Rightarrow>
          pollServerSessionRecur env now clientId configId
            (s\<lparr>timers := filter (\<lambda>t. fst t \<noteq> h) (timers s)\<rparr>))"

text \<open>
  The iframe finishes loading at time \<open>now\<close>: the handler stores the time and calls
  \<open>observer.next()\<close>, which reaches the tick's callback only while the subscriber is open.
\<close>

definition iframeLoaded :: "env \<Rightarrow> nat \<Rightarrow> service \<Rightarrow> service" where
  "iframeLoaded env now s =
     (case existingIFrame s of
        None \<Rightarrow> s
      | Some f \<Rightarrow>
          (case onload f of
             None \<Rightarrow> s
           | Some (opened, clientId, configId) \<Rightarrow>
               (let s1 = s\<lparr>lastIFrameRefresh := now\<rparr>
                in if opened then
                     onReady env clientId configId
                       (s1\<lparr>existingIFrame := Some (f\<lparr>onload := Some (False, clientId, configId)\<rparr>)\<rparr>)
                   else s1)))"

subsection \<open>Conditions used in the statements\<close>

text \<open>
  \<open>canProbe\<close>: the conditions under which the first \<open>if\<close> of the callback reaches
  \<open>postMessage\<close>. \<open>urlParses\<close>: \<open>new URL\<close> does not throw on the stored endpoint.
\<close>

definition canProbe :: "env \<Rightarrow> string \<Rightarrow> string \<Rightarrow> service \<Rightarrow> bool" where
  "canProbe env clientId configId s =
     (existingIFrame s \<noteq> None \<and> clientId \<noteq> [] \<and>
      truthy (readSessionState env (JStr configId)) \<and>
      (case checkSessionIframeOf (readAuthWellKnownEndPoints env (JStr configId)) of
         None \<Rightarrow> False
       | Some url \<Rightarrow> url \<noteq> [] \<and> urlOrigin env url \<noteq> None))"

definition urlParses :: "env \<Rightarrow> string \<Rightarrow> bool" where
  "urlParses env configId =
     (case checkSessionIframeOf (readAuthWellKnownEndPoints env (JStr configId)) of
        None \<Rightarrow> True
      | Some url \<Rightarrow> urlOrigin env url \<noteq> None)"

subsection \<open>Events\<close>

text \<open>
  The browser calls back into the service in three ways: the timeout with handle \<open>h\<close>
  expires at time \<open>t\<close>, the iframe finishes loading at time \<open>l\<close>, or a message event
  reaches the window and is given to every registered listener. A run is a list of
  such events, handled one after the other.
\<close>

datatype event = TimerExpires nat nat | IframeLoads nat | MessageArrives message_event

fun dispatch :: "env \<Rightarrow> event \<Rightarrow> service \<Rightarrow> service" where
  "dispatch env (TimerExpires h t) s = timerFires env t h s"
| "dispatch env (IframeLoads l) s = iframeLoaded env l s"
| "dispatch env (MessageArrives m) s = deliverMessage env m s"

fun runEvents :: "env \<Rightarrow> event list \<Rightarrow> service \<Rightarrow> service" where
  "runEvents env [] s = s"
| "runEvents env (e # es) s = runEvents env es (dispatch env e s)"

fun isMessage :: "event \<Rightarrow> bool" where
  "isMessage (MessageArrives m) = True"
| "isMessage _ = False"

text \<open>
  \<open>subscriberOpen\<close>: a tick has subscribed to the iframe's load and has not been
  called back yet. \<open>callbackRuns s e\<close>: in state \<open>s\<close> the event \<open>e\<close> reaches the tick's
  callback, which is the case for a pending timeout that expires inside the iframe
  refresh window (\<open>init\<close> returns \<open>of(undefined)\<close>) and for a load event while a
  subscriber is open.
\<close>

definition subscriberOpen :: "service \<Rightarrow> bool" where
  "subscriberOpen s =
     (case existingIFrame s of
        None \<Rightarrow> False
      | Some f \<Rightarrow> (case onload f of None \<Rightarrow> False | Some (opened, c, cfg) \<Rightarrow> opened))"

fun callbackRuns :: "service \<Rightarrow> event \<Rightarrow> bool" where
  "callbackRuns s (TimerExpires h t) =
     (find (\<lambda>x. fst x = h) (timers s) \<noteq> None \<and> t < lastIFrameRefresh s + iframeRefreshInterval)"
| "callbackRuns s (IframeLoads l) = subscriberOpen s"
| "callbackRuns s (MessageArrives m) = False"

text \<open>
  \<open>beating env clientId configId s\<close>: one heartbeat loop is under way for \<open>clientId\<close>
  and \<open>configId\<close>, and its ticks can post a probe. Either the tick waits for the iframe
  to load and no timeout is pending, or exactly one timeout is pending, its handle is
  the recorded one and its closure holds \<open>clientId\<close> and \<open>configId\<close>. A listener is
  registered.
\<close>

definition beating :: "env \<Rightarrow> string \<Rightarrow> string \<Rightarrow> service \<Rightarrow> bool" where
  "beating env clientId configId s =
     (canProbe env clientId configId s \<and> listeners s \<noteq> [] \<and>
      (if subscriberOpen s then
         timers s = [] \<and>
         (case existingIFrame s of
            None \<Rightarrow> False
          | Some f \<Rightarrow> onload f = Some (True, clientId, configId))
       else
         (case timers s of
            [] \<Rightarrow> False
          | x # xs \<Rightarrow> xs = [] \<and> scheduledHeartBeatRunning s = Some (fst x) \<and>
                     snd (snd x) = (clientId, configId))))"

subsection \<open>Example configurations\<close>

text \<open>
  A stand-in for the platform's URL parser on the URLs of the examples: the origin of
  an http(s) URL is what precedes the third slash.
\<close>

fun originPrefix :: "nat \<Rightarrow> string \<Rightarrow> string" where
  "originPrefix n [] = []"
| "originPrefix n (c # cs) =
     (if c = CHR ''/'' then (if n = 2 then [] else c # originPrefix (Suc n) cs)
      else c # originPrefix n cs)"

definition exampleUrlOrigin :: "string \<Rightarrow> string option" where
  "exampleUrlOrigin url =
     (if startsWith url ''https://'' \<or> startsWith url ''http://'' then Some (originPrefix 0 url)
      else None)"

text \<open>Tenants \<open>t1\<close> and \<open>t2\<close> have session checking enabled; the client id is \<open>abc\<close>.\<close>

definition exampleConfig :: "string \<Rightarrow> open_id_configuration" where
  "exampleConfig configId =
     \<lparr>startCheckSession = (configId = ''t1'' \<or> configId = ''t2''), cfgClientId = ''abc''\<rparr>"

definition exampleEndPoints :: auth_well_known where
  "exampleEndPoints = \<lparr>checkSessionIframe = Some ''https://idp.example/check''\<rparr>"

text \<open>
  \<open>tenantEnv\<close>: the storage holds the endpoints and the session state \<open>s1\<close> under the
  tenant \<open>t1\<close> only. \<open>sharedEnv\<close>: the storage answers the same under every key.
  \<open>noStateEnv\<close>: no session state is stored. \<open>noEndPointsEnv\<close>: no endpoints are stored.
\<close>

definition tenantEnv :: env where
  "tenantEnv =
     \<lparr>getOpenIDConfiguration = exampleConfig,
      readAuthWellKnownEndPoints = (\<lambda>k. if k = JStr ''t1'' then Some exampleEndPoints else None),
      readSessionState = (\<lambda>k. if k = JStr ''t1'' then Some ''s1'' else None),
      urlOrigin = exampleUrlOrigin,
      newFrameWindow = 7\<rparr>"

definition sharedEnv :: env where
  "sharedEnv =
     \<lparr>getOpenIDConfiguration = exampleConfig,
      readAuthWellKnownEndPoints = (\<lambda>k. Some exampleEndPoints),
      readSessionState = (\<lambda>k. Some ''s1''),
      urlOrigin = exampleUrlOrigin,
      newFrameWindow = 7\<rparr>"

definition noStateEnv :: env where
  "noStateEnv = sharedEnv\<lparr>readSessionState := (\<lambda>k. None)\<rparr>"

definition noEndPointsEnv :: env where
  "noEndPointsEnv = sharedEnv\<lparr>readAuthWellKnownEndPoints := (\<lambda>k. None)\<rparr>"

definition changedFromIdp :: message_event where
  "changedFromIdp =
     \<lparr>origin = ''https://idp.example'', source = RWindow 7, data = ''changed''\<rparr>"

definition changedFromElsewhere :: message_event where
  "changedFromElsewhere =
     \<lparr>origin = ''https://evil.example'', source = RWindow 7, data = ''changed''\<rparr>"

text \<open>\<open>start\<close> for tenant \<open>t1\<close> on a new service, then the iframe's load event.\<close>

definition firstTick :: "env \<Rightarrow> service" where
  "firstTick env = iframeLoaded env 100100 (start env 100000 ''t1'' initialService)"

section \<open>Properties\<close>

subsection \<open>The example run\<close>

lemmas env_defs = tenantEnv_def sharedEnv_def noStateEnv_def noEndPointsEnv_def
  exampleConfig_def exampleEndPoints_def exampleUrlOrigin_def startsWith_def

lemmas step_defs = firstTick_def start_def pollServerSession_def pollServerSessionRecur_def
  init_def iframeLoaded_def onReady_def sendProbe_def escalate_def scheduleHeartBeat_def
  setOnload_def getOrCreateIframe_def bindMessageEventToIframe_def locationReplace_def
  logAt_def nextChanged_def fireEvent_def postMessage_def noSessionState_def
  initialService_def iframeRefreshInterval_def heartBeatInterval_def

lemmas handler_defs = messageHandler_def originMatches_def sourceMatches_def
  deliverMessage_def iframeMessageEvent_def changedFromIdp_def changedFromElsewhere_def
  stop_def clearScheduledHeartBeat_def serverStateChanged_def

text \<open>
  With the storage answering under every key, \<open>start\<close> and the load event leave one
  probe posted, one timeout pending and the listener bound to \<open>abc\<close>.
\<close>

lemma firstTick_shared:
  "firstTick sharedEnv =
     \<lparr>checkSessionReceived = False, scheduledHeartBeatRunning = Some 1,
      lastIFrameRefresh = 100100, outstandingMessages = 1, published = [],
      existingIFrame = Some \<lparr>contentWindow = 7, location = Some ''https://idp.example/check'',
                              onload = Some (False, ''t1'', ''abc'')\<rparr>,
      listeners = [''abc''], timers = [(1, 3000, ''t1'', ''abc'')], nextTimer = 2,
      logs = [(Debug, ''clientId : - existingIframe: '')], fired = [],
      posted = [(''t1 s1'', ''https://idp.example'')], faults = []\<rparr>"
  by (simp add: step_defs env_defs)

lemma firstTick_noState:
  "firstTick noStateEnv =
     \<lparr>checkSessionReceived = False, scheduledHeartBeatRunning = Some 1,
      lastIFrameRefresh = 100100, outstandingMessages = 0, published = [True],
      existingIFrame = Some \<lparr>contentWindow = 7, location = Some ''https://idp.example/check'',
                              onload = Some (False, ''t1'', ''abc'')\<rparr>,
      listeners = [''abc''], timers = [(1, 3000, ''t1'', ''abc'')], nextTimer = 2,
      logs = [(Debug, ''session_state is - AuthWellKnownEndPoints is''),
              (Debug, ''clientId : - existingIframe: '')], fired = [],
      posted = [], faults = []\<rparr>"
  by (simp add: step_defs env_defs)

lemma canProbe_firstTick: "canProbe sharedEnv ''t1'' ''abc'' (firstTick sharedEnv)"
  unfolding firstTick_shared by (simp add: canProbe_def env_defs)

subsection \<open>The probe step and the callback\<close>

lemma sendProbe_noState:
  assumes "existingIFrame s \<noteq> None" and "clientId \<noteq> []"
    and "\<not> (truthy (readSessionState env (JStr configId)) \<and>
            truthy (checkSessionIframeOf (readAuthWellKnownEndPoints env (JStr configId))))"
  shows "sendProbe env clientId configId s =
           Inr (noSessionState (logAt Debug ''clientId : - existingIframe: '' s))"
  using assms
  by (cases "readSessionState env (JStr configId)";
      cases "checkSessionIframeOf (readAuthWellKnownEndPoints env (JStr configId))")
     (auto simp: sendProbe_def)

lemma sendProbe_canProbe:
  assumes "canProbe env clientId configId s"
  shows "sendProbe env clientId configId s =
           Inr (postMessage
                  (clientId @ '' '' @ the (readSessionState env (JStr configId)))
                  (the (urlOrigin env
                     (the (checkSessionIframeOf (readAuthWellKnownEndPoints env (JStr configId))))))
                  ((logAt Debug ''clientId : - existingIframe: '' s)
                     \<lparr>outstandingMessages := Suc (outstandingMessages s)\<rparr>))"
  using assms
  by (cases "readSessionState env (JStr configId)";
      cases "checkSessionIframeOf (readAuthWellKnownEndPoints env (JStr configId))")
     (auto simp: canProbe_def sendProbe_def Let_def logAt_def)

lemma sendProbe_cases:
  "sendProbe env clientId configId s = Inl (logAt Debug ''clientId : - existingIframe: '' s) \<or>
   (\<exists>m org. sendProbe env clientId configId s =
      Inr (postMessage m org ((logAt Debug ''clientId : - existingIframe: '' s)
             \<lparr>outstandingMessages := Suc (outstandingMessages s)\<rparr>))) \<or>
   sendProbe env clientId configId s =
      Inr (noSessionState (logAt Debug ''clientId : - existingIframe: '' s)) \<or>
   sendProbe env clientId configId s =
      Inr (logAt Debug ''clientId : - existingIframe: ''
            (logAt Warning
               ''OidcSecurityCheckSession pollServerSession checkSession IFrame does not exist'' s))"
  by (cases "readSessionState env (JStr configId)";
      cases "checkSessionIframeOf (readAuthWellKnownEndPoints env (JStr configId))")
     (auto simp: sendProbe_def Let_def logAt_def split: option.splits)

lemma sendProbe_Inr:
  "urlParses env configId \<Longrightarrow> \<exists>s1. sendProbe env clientId configId s = Inr s1"
  by (cases "readSessionState env (JStr configId)";
      cases "checkSessionIframeOf (readAuthWellKnownEndPoints env (JStr configId))")
     (auto simp: sendProbe_def urlParses_def Let_def)

lemma sendProbe_nextTimer:
  "sendProbe env clientId configId s = Inr s1 \<Longrightarrow>
     nextTimer s1 = nextTimer s \<and> timers s1 = timers s"
  by (cases "readSessionState env (JStr configId)";
      cases "checkSessionIframeOf (readAuthWellKnownEndPoints env (JStr configId))")
     (auto simp: sendProbe_def noSessionState_def nextChanged_def logAt_def postMessage_def Let_def
      split: option.splits if_splits)

lemma escalate_fields:
  "checkSessionReceived (escalate s) = checkSessionReceived s"
  "published (escalate s) = published s"
  "outstandingMessages (escalate s) = outstandingMessages s"
  "posted (escalate s) = posted s"
  "faults (escalate s) = faults s"
  "nextTimer (escalate s) = nextTimer s"
  "timers (escalate s) = timers s"
  "existingIFrame (escalate s) = existingIFrame s"
  "lastIFrameRefresh (escalate s) = lastIFrameRefresh s"
  by (simp_all add: escalate_def logAt_def)

lemma onReady_schedules:
  assumes "urlParses env configId"
  shows "scheduledHeartBeatRunning (onReady env clientId configId s) = Some (nextTimer s) \<and>
         timers (onReady env clientId configId s) =
           (nextTimer s, heartBeatInterval, clientId, configId) # timers s"
proof -
  obtain s1 where s1: "sendProbe env clientId configId s = Inr s1"
    using sendProbe_Inr[OF assms] by blast
  from sendProbe_nextTimer[OF s1] show ?thesis
    by (simp add: onReady_def s1 escalate_fields scheduleHeartBeat_def)
qed

lemma onReady_frame:
  "checkSessionReceived (onReady env clientId configId s) = checkSessionReceived s \<and>
   (checkSessionChanged s \<longrightarrow> checkSessionChanged (onReady env clientId configId s)) \<and>
   outstandingMessages (onReady env clientId configId s) + length (posted s) =
     outstandingMessages s + length (posted (onReady env clientId configId s))"
  using sendProbe_cases[of env clientId configId s]
  by (auto simp: onReady_def logAt_def postMessage_def noSessionState_def nextChanged_def
      escalate_fields scheduleHeartBeat_def split: list.splits)

lemma onReady_canProbe:
  assumes "canProbe env clientId configId s"
  shows "outstandingMessages (onReady env clientId configId s) = Suc (outstandingMessages s)"
    and "errorCount (onReady env clientId configId s) =
           errorCount s + (if 3 < Suc (outstandingMessages s) then 1 else 0)"
    and "faults (onReady env clientId configId s) = faults s"
    and "existingIFrame (onReady env clientId configId s) = existingIFrame s"
    and "lastIFrameRefresh (onReady env clientId configId s) = lastIFrameRefresh s"
    and "scheduledHeartBeatRunning (onReady env clientId configId s) = Some (nextTimer s)"
    and "timers (onReady env clientId configId s) =
           (nextTimer s, heartBeatInterval, clientId, configId) # timers s"
proof -
  note sp = sendProbe_canProbe[OF assms]
  show "outstandingMessages (onReady env clientId configId s) = Suc (outstandingMessages s)"
    by (simp add: onReady_def sp scheduleHeartBeat_def escalate_fields postMessage_def logAt_def)
  show "errorCount (onReady env clientId configId s) =
           errorCount s + (if 3 < Suc (outstandingMessages s) then 1 else 0)"
    by (simp add: onReady_def sp errorCount_def escalate_def postMessage_def logAt_def
        scheduleHeartBeat_def)
  show "faults (onReady env clientId configId s) = faults s"
    by (simp add: onReady_def sp scheduleHeartBeat_def escalate_fields postMessage_def logAt_def)
  show "existingIFrame (onReady env clientId configId s) = existingIFrame s"
    by (simp add: onReady_def sp scheduleHeartBeat_def escalate_fields postMessage_def logAt_def)
  show "lastIFrameRefresh (onReady env clientId configId s) = lastIFrameRefresh s"
    by (simp add: onReady_def sp scheduleHeartBeat_def escalate_fields postMessage_def logAt_def)
  show "scheduledHeartBeatRunning (onReady env clientId configId s) = Some (nextTimer s)"
    by (simp add: onReady_def sp scheduleHeartBeat_def escalate_fields postMessage_def logAt_def)
  show "timers (onReady env clientId configId s) =
           (nextTimer s, heartBeatInterval, clientId, configId) # timers s"
    by (simp add: onReady_def sp scheduleHeartBeat_def escalate_fields postMessage_def logAt_def)
qed

subsection \<open>What \<open>init\<close>, a tick and \<open>stop\<close> leave alone\<close>

lemma init_frame:
  "checkSessionReceived (snd (init env now configId s)) = checkSessionReceived s \<and>
   published (snd (init env now configId s)) = published s \<and>
   outstandingMessages (snd (init env now configId s)) = outstandingMessages s \<and>
   posted (snd (init env now configId s)) = posted s"
  by (auto simp: init_def getOrCreateIframe_def bindMessageEventToIframe_def locationReplace_def
      logAt_def Let_def split: option.splits)

lemma pollServerSessionRecur_frame:
  "checkSessionReceived (pollServerSessionRecur env now clientId configId s) = checkSessionReceived s \<and>
   (checkSessionChanged s \<longrightarrow> checkSessionChanged (pollServerSessionRecur env now clientId configId s)) \<and>
   outstandingMessages (pollServerSessionRecur env now clientId configId s) + length (posted s) =
     outstandingMessages s + length (posted (pollServerSessionRecur env now clientId configId s))"
proof (cases "init env now configId s")
  case (Pair r s1)
  with init_frame[of env now configId s]
  have eq: "checkSessionReceived s1 = checkSessionReceived s" "published s1 = published s"
    "outstandingMessages s1 = outstandingMessages s" "posted s1 = posted s"
    by simp_all
  show ?thesis
  proof (cases r)
    case Emits
    with Pair eq onReady_frame[of env clientId configId s1] show ?thesis
      by (simp add: pollServerSessionRecur_def)
  next
    case Completes
    with Pair eq show ?thesis by (simp add: pollServerSessionRecur_def)
  next
    case OnLoad
    with Pair eq show ?thesis by (simp add: pollServerSessionRecur_def setOnload_def)
  qed
qed

lemma stop_keeps:
  "existingIFrame (stop s) = existingIFrame s \<and> published (stop s) = published s \<and>
   fired (stop s) = fired s \<and> \<not> truthy_handle (scheduledHeartBeatRunning (stop s))"
  by (simp add: stop_def clearScheduledHeartBeat_def)

subsection \<open>Events under a running loop\<close>

lemma messageHandler_frame:
  "timers (messageHandler env e c s) = timers s"
  "scheduledHeartBeatRunning (messageHandler env e c s) = scheduledHeartBeatRunning s"
  "existingIFrame (messageHandler env e c s) = existingIFrame s"
  "listeners (messageHandler env e c s) = listeners s"
  "faults (messageHandler env e c s) = faults s"
  "lastIFrameRefresh (messageHandler env e c s) = lastIFrameRefresh s"
  "errorCount (messageHandler env e c s) = errorCount s"
  "outstandingMessages (messageHandler env e c s) = 0"
  by (simp_all add: messageHandler_def Let_def logAt_def nextChanged_def fireEvent_def errorCount_def)

lemma foldl_handler_frame:
  "timers (foldl (\<lambda>st b. iframeMessageEvent env b ev st) s bs) = timers s \<and>
   scheduledHeartBeatRunning (foldl (\<lambda>st b. iframeMessageEvent env b ev st) s bs) =
     scheduledHeartBeatRunning s \<and>
   existingIFrame (foldl (\<lambda>st b. iframeMessageEvent env b ev st) s bs) = existingIFrame s \<and>
   listeners (foldl (\<lambda>st b. iframeMessageEvent env b ev st) s bs) = listeners s \<and>
   faults (foldl (\<lambda>st b. iframeMessageEvent env b ev st) s bs) = faults s \<and>
   lastIFrameRefresh (foldl (\<lambda>st b. iframeMessageEvent env b ev st) s bs) = lastIFrameRefresh s \<and>
   errorCount (foldl (\<lambda>st b. iframeMessageEvent env b ev st) s bs) = errorCount s \<and>
   outstandingMessages (foldl (\<lambda>st b. iframeMessageEvent env b ev st) s bs) =
     (if bs = [] then outstandingMessages s else 0)"
proof (induction bs arbitrary: s)
  case Nil
  then show ?case by simp
next
  case (Cons b bs)
  show ?case
    using Cons.IH[of "iframeMessageEvent env b ev s"]
    by (simp add: iframeMessageEvent_def messageHandler_frame)
qed

lemma beating_cong:
  assumes "beating env c cfg s"
    and "existingIFrame s' = existingIFrame s" and "listeners s' = listeners s"
    and "timers s' = timers s" and "scheduledHeartBeatRunning s' = scheduledHeartBeatRunning s"
  shows "beating env c cfg s'"
  using assms
  by (auto simp: beating_def canProbe_def subscriberOpen_def split: list.splits if_splits)

lemma onReady_listeners:
  "listeners (onReady env c cfg s) = listeners s"
  using sendProbe_cases[of env c cfg s]
  by (auto simp: onReady_def logAt_def postMessage_def noSessionState_def nextChanged_def
      escalate_def scheduleHeartBeat_def)

lemma message_law:
  assumes "beating env c cfg s"
  shows "beating env c cfg (deliverMessage env m s) \<and>
         faults (deliverMessage env m s) = faults s \<and>
         outstandingMessages (deliverMessage env m s) = 0 \<and>
         errorCount (deliverMessage env m s) = errorCount s"
proof -
  note fr = foldl_handler_frame[of env m s "listeners s"]
  have ne: "listeners s \<noteq> []" using assms by (simp add: beating_def)
  have "beating env c cfg (deliverMessage env m s)"
    using fr by (intro beating_cong[OF assms]) (simp_all add: deliverMessage_def)
  with fr ne show ?thesis by (simp add: deliverMessage_def)
qed

lemma load_law:
  assumes b: "beating env c cfg s"
  shows "beating env c cfg (iframeLoaded env l s) \<and>
         faults (iframeLoaded env l s) = faults s \<and>
         (if subscriberOpen s then
            outstandingMessages (iframeLoaded env l s) = Suc (outstandingMessages s) \<and>
            errorCount (iframeLoaded env l s) =
              errorCount s + (if 3 < Suc (outstandingMessages s) then 1 else 0)
          else
            outstandingMessages (iframeLoaded env l s) = outstandingMessages s \<and>
            errorCount (iframeLoaded env l s) = errorCount s)"
proof (cases "subscriberOpen s")
  case True
  with b obtain f where f: "existingIFrame s = Some f" "onload f = Some (True, c, cfg)"
    and t: "timers s = []"
    by (auto simp: beating_def split: option.splits)
  let ?s2 = "s\<lparr>lastIFrameRefresh := l,
                existingIFrame := Some (f\<lparr>onload := Some (False, c, cfg)\<rparr>)\<rparr>"
  have il: "iframeLoaded env l s = onReady env c cfg ?s2"
    using f by (simp add: iframeLoaded_def)
  have cp: "canProbe env c cfg ?s2"
    using b by (simp add: beating_def canProbe_def)
  note o = onReady_canProbe[OF cp]
  have "beating env c cfg (onReady env c cfg ?s2)"
    using b t cp by (simp add: beating_def canProbe_def subscriberOpen_def o onReady_listeners)
  with True o show ?thesis
    unfolding il by (simp add: errorCount_def)
next
  case False
  have "iframeLoaded env l s = s \<or> iframeLoaded env l s = s\<lparr>lastIFrameRefresh := l\<rparr>"
    using False
    by (auto simp: iframeLoaded_def subscriberOpen_def split: option.splits)
  then show ?thesis
  proof
    assume "iframeLoaded env l s = s"
    with b False show ?thesis by simp
  next
    assume e: "iframeLoaded env l s = s\<lparr>lastIFrameRefresh := l\<rparr>"
    have "beating env c cfg (s\<lparr>lastIFrameRefresh := l\<rparr>)"
      by (intro beating_cong[OF b]) simp_all
    with False show ?thesis
      unfolding e by (simp add: errorCount_def)
  qed
qed

lemma timer_law:
  assumes b: "beating env c cfg s"
  shows "beating env c cfg (timerFires env t h s) \<and>
         faults (timerFires env t h s) = faults s \<and>
         (if callbackRuns s (TimerExpires h t) then
            outstandingMessages (timerFires env t h s) = Suc (outstandingMessages s) \<and>
            errorCount (timerFires env t h s) =
              errorCount s + (if 3 < Suc (outstandingMessages s) then 1 else 0)
          else
            outstandingMessages (timerFires env t h s) = outstandingMessages s \<and>
            errorCount (timerFires env t h s) = errorCount s)"
proof (cases "find (\<lambda>x. fst x = h) (timers s)")
  case None
  then have "timerFires env t h s = s" by (simp add: timerFires_def)
  with b None show ?thesis by simp
next
  case (Some x)
  then have ne: "timers s \<noteq> []" by auto
  with b have nopen: "\<not> subscriberOpen s"
    by (auto simp: beating_def split: if_splits)
  with b ne obtain y where y: "timers s = [y]" "scheduledHeartBeatRunning s = Some (fst y)"
    "snd (snd y) = (c, cfg)"
    by (auto simp: beating_def split: list.splits)
  from Some y have xy: "x = y" "fst y = h"
    by (auto split: if_splits)
  obtain d where yd: "y = (h, d, c, cfg)"
    using y(3) xy(2) by (cases y) auto
  let ?s0 = "s\<lparr>timers := []\<rparr>"
  have tf: "timerFires env t h s = pollServerSessionRecur env t c cfg ?s0"
    using y(1) yd by (simp add: timerFires_def)
  have cp: "canProbe env c cfg s" and ls: "listeners s \<noteq> []"
    using b by (simp_all add: beating_def)
  show ?thesis
  proof (cases "t < lastIFrameRefresh s + iframeRefreshInterval")
    case True
    have cp0: "canProbe env c cfg ?s0" using cp by (simp add: canProbe_def)
    note o = onReady_canProbe[OF cp0]
    have pr: "pollServerSessionRecur env t c cfg ?s0 = onReady env c cfg ?s0"
      using True by (simp add: pollServerSessionRecur_def init_def)
    have "beating env c cfg (onReady env c cfg ?s0)"
      using cp ls nopen
      by (simp add: beating_def canProbe_def subscriberOpen_def o onReady_listeners)
    with True Some o show ?thesis
      unfolding tf pr by (simp add: errorCount_def)
  next
    case False
    from cp obtain f url wk where f: "existingIFrame s = Some f"
      and wk: "readAuthWellKnownEndPoints env (JStr cfg) = Some wk"
      and url: "checkSessionIframe wk = Some url" "url \<noteq> []"
      by (cases "readAuthWellKnownEndPoints env (JStr cfg)")
         (auto simp: canProbe_def split: option.splits)
    let ?s1 = "s\<lparr>timers := [],
                  existingIFrame := Some (f\<lparr>location := Some url, onload := Some (True, c, cfg)\<rparr>)\<rparr>"
    have pr: "pollServerSessionRecur env t c cfg ?s0 = ?s1"
      using False f wk url
      by (simp add: pollServerSessionRecur_def init_def getOrCreateIframe_def
          locationReplace_def setOnload_def)
    have "beating env c cfg ?s1"
      using cp ls by (simp add: beating_def canProbe_def subscriberOpen_def)
    with False show ?thesis
      unfolding tf pr by (simp add: errorCount_def)
  qed
qed

lemma dispatch_law:
  assumes "beating env c cfg s"
  shows "beating env c cfg (dispatch env e s) \<and>
         faults (dispatch env e s) = faults s \<and>
         (isMessage e \<longrightarrow>
            outstandingMessages (dispatch env e s) = 0 \<and>
            errorCount (dispatch env e s) = errorCount s) \<and>
         (callbackRuns s e \<longrightarrow>
            outstandingMessages (dispatch env e s) = Suc (outstandingMessages s) \<and>
            errorCount (dispatch env e s) =
              errorCount s + (if 3 < outstandingMessages (dispatch env e s) then 1 else 0)) \<and>
         (\<not> isMessage e \<and> \<not> callbackRuns s e \<longrightarrow>
            outstandingMessages (dispatch env e s) = outstandingMessages s \<and>
            errorCount (dispatch env e s) = errorCount s)"
proof (cases e)
  case (TimerExpires h t)
  with timer_law[OF assms, of t h] show ?thesis
    by (simp split: if_splits)
next
  case (IframeLoads l)
  with load_law[OF assms, of l] show ?thesis
    by (simp split: if_splits)
next
  case (MessageArrives m)
  with message_law[OF assms, of m] show ?thesis by simp
qed

lemma runEvents_append:
  "runEvents env (es @ fs) s = runEvents env fs (runEvents env es s)"
  by (induction es arbitrary: s) simp_all

lemma runEvents_beating:
  "beating env c cfg s \<Longrightarrow>
     beating env c cfg (runEvents env es s) \<and> faults (runEvents env es s) = faults s"
proof (induction es arbitrary: s)
  case Nil
  then show ?case by simp
next
  case (Cons e es)
  from dispatch_law[OF Cons.prems, of e]
  have b: "beating env c cfg (dispatch env e s)" and f: "faults (dispatch env e s) = faults s"
    by simp_all
  from Cons.IH[OF b] f show ?case by simp
qed

lemma runEvents_messageFree:
  "beating env c cfg s \<Longrightarrow> list_all (\<lambda>e. \<not> isMessage e) es \<Longrightarrow>
     outstandingMessages s \<le> outstandingMessages (runEvents env es s) \<and>
     errorCount (runEvents env es s) + (outstandingMessages s - 3) =
       errorCount s + (outstandingMessages (runEvents env es s) - 3)"
proof (induction es arbitrary: s)
  case Nil
  then show ?case by simp
next
  case (Cons e es)
  note d = dispatch_law[OF Cons.prems(1), of e]
  from d have b: "beating env c cfg (dispatch env e s)" by simp
  from Cons.prems(2) have nm: "\<not> isMessage e" and rest: "list_all (\<lambda>e. \<not> isMessage e) es"
    by simp_all
  note ih = Cons.IH[OF b rest]
  show ?case
  proof (cases "callbackRuns s e")
    case True
    with d have st: "outstandingMessages (dispatch env e s) = Suc (outstandingMessages s)"
      "errorCount (dispatch env e s) =
         errorCount s + (if 3 < Suc (outstandingMessages s) then 1 else 0)"
      by simp_all
    then have "errorCount (dispatch env e s) + (outstandingMessages s - 3) =
                 errorCount s + (outstandingMessages (dispatch env e s) - 3)"
      by (cases "3 < Suc (outstandingMessages s)") simp_all
    with ih st(1) have "outstandingMessages s \<le> outstandingMessages (runEvents env es (dispatch env e s)) \<and>
        errorCount (runEvents env es (dispatch env e s)) + (outstandingMessages s - 3) =
          errorCount s + (outstandingMessages (runEvents env es (dispatch env e s)) - 3)"
      by linarith
    then show ?thesis by simp
  next
    case False
    with d nm have "outstandingMessages (dispatch env e s) = outstandingMessages s"
      "errorCount (dispatch env e s) = errorCount s"
      by simp_all
    with ih show ?thesis by simp
  qed
qed

lemma beating_firstTick: "beating sharedEnv ''t1'' ''abc'' (firstTick sharedEnv)"
  using canProbe_firstTick
  by (simp add: beating_def subscriberOpen_def firstTick_shared)

lemma twoBeats_shared:
  "runEvents sharedEnv [TimerExpires 1 103100, TimerExpires 2 106100] (firstTick sharedEnv) =
     \<lparr>checkSessionReceived = False, scheduledHeartBeatRunning = Some 3,
      lastIFrameRefresh = 100100, outstandingMessages = 3, published = [],
      existingIFrame = Some \<lparr>contentWindow = 7, location = Some ''https://idp.example/check'',
                              onload = Some (False, ''t1'', ''abc'')\<rparr>,
      listeners = [''abc''], timers = [(3, 3000, ''t1'', ''abc'')], nextTimer = 4,
      logs = [(Debug, ''clientId : - existingIframe: ''),
              (Debug, ''clientId : - existingIframe: ''),
              (Debug, ''clientId : - existingIframe: '')], fired = [],
      posted = [(''t1 s1'', ''https://idp.example''), (''t1 s1'', ''https://idp.example''),
                (''t1 s1'', ''https://idp.example'')], faults = []\<rparr>"
  unfolding firstTick_shared
  by (simp add: timerFires_def step_defs env_defs)

lemma lateBeat_shared:
  "runEvents sharedEnv [TimerExpires 1 103100, TimerExpires 2 106100, TimerExpires 3 160100]
     (firstTick sharedEnv) =
     \<lparr>checkSessionReceived = False, scheduledHeartBeatRunning = Some 3,
      lastIFrameRefresh = 100100, outstandingMessages = 3, published = [],
      existingIFrame = Some \<lparr>contentWindow = 7, location = Some ''https://idp.example/check'',
                              onload = Some (True, ''t1'', ''abc'')\<rparr>,
      listeners = [''abc''], timers = [], nextTimer = 4,
      logs = [(Debug, ''clientId : - existingIframe: ''),
              (Debug, ''clientId : - existingIframe: ''),
              (Debug, ''clientId : - existingIframe: '')], fired = [],
      posted = [(''t1 s1'', ''https://idp.example''), (''t1 s1'', ''https://idp.example''),
                (''t1 s1'', ''https://idp.example'')], faults = []\<rparr>"
proof -
  have "runEvents sharedEnv [TimerExpires 1 103100, TimerExpires 2 106100, TimerExpires 3 160100]
          (firstTick sharedEnv) =
        dispatch sharedEnv (TimerExpires 3 160100)
          (runEvents sharedEnv [TimerExpires 1 103100, TimerExpires 2 106100] (firstTick sharedEnv))"
    by simp
  then show ?thesis
    unfolding twoBeats_shared by (simp add: timerFires_def step_defs env_defs)
qed

subsection \<open>After the first callback\<close>

lemma onReady_after:
  assumes "urlParses env configId"
  shows "nextTimer (onReady env clientId configId s) = Suc (nextTimer s) \<and>
         lastIFrameRefresh (onReady env clientId configId s) = lastIFrameRefresh s"
proof -
  obtain s1 where s1: "sendProbe env clientId configId s = Inr s1"
    using sendProbe_Inr[OF assms] by blast
  have "lastIFrameRefresh s1 = lastIFrameRefresh s"
    using sendProbe_cases[of env clientId configId s] s1
    by (auto simp: logAt_def postMessage_def noSessionState_def nextChanged_def)
  with sendProbe_nextTimer[OF s1] show ?thesis
    by (simp add: onReady_def s1 escalate_fields scheduleHeartBeat_def)
qed

lemma find_filtered: "find (\<lambda>x. fst x = h) (filter (\<lambda>x. fst x \<noteq> h) xs) = None"
  by (simp add: find_None_iff)

section \<open>The claims\<close>

subsection \<open>C1: a tick without a session state\<close>

text \<open>
  C1 (as amended). In the tick's callback, if the iframe exists and the client id is not
  empty but the stored session state, or the check-session iframe URL, is missing or
  empty, the callback publishes \<open>true\<close> on the change stream, so the observable value is
  \<open>true\<close> afterwards. It posts no probe, leaves the counter and \<open>checkSessionReceived\<close>
  as they were, raises no fault, and schedules the next tick after the heartbeat interval.
\<close>

theorem tick_without_session_state_publishes_changed:
  assumes "existingIFrame s \<noteq> None" and "clientId \<noteq> []"
    and "\<not> (truthy (readSessionState env (JStr configId)) \<and>
            truthy (checkSessionIframeOf (readAuthWellKnownEndPoints env (JStr configId))))"
  shows "published (onReady env clientId configId s) = True # published s \<and>
         checkSessionChanged (onReady env clientId configId s) \<and>
         posted (onReady env clientId configId s) = posted s \<and>
         outstandingMessages (onReady env clientId configId s) = outstandingMessages s \<and>
         checkSessionReceived (onReady env clientId configId s) = checkSessionReceived s \<and>
         faults (onReady env clientId configId s) = faults s \<and>
         scheduledHeartBeatRunning (onReady env clientId configId s) = Some (nextTimer s) \<and>
         timers (onReady env clientId configId s) =
           (nextTimer s, heartBeatInterval, clientId, configId) # timers s"
  by (simp add: onReady_def sendProbe_noState[OF assms] noSessionState_def nextChanged_def
      logAt_def escalate_def scheduleHeartBeat_def)

theorem tick_without_session_state_publishes_changed_witness:
  "existingIFrame (firstTick sharedEnv) \<noteq> None \<and>
   \<not> truthy (readSessionState noStateEnv (JStr ''abc'')) \<and>
   published (firstTick sharedEnv) = [] \<and>
   published (onReady noStateEnv ''t1'' ''abc'' (firstTick sharedEnv)) = [True] \<and>
   posted (onReady noStateEnv ''t1'' ''abc'' (firstTick sharedEnv)) = posted (firstTick sharedEnv) \<and>
   outstandingMessages (onReady noStateEnv ''t1'' ''abc'' (firstTick sharedEnv)) = 1 \<and>
   scheduledHeartBeatRunning (onReady noStateEnv ''t1'' ''abc'' (firstTick sharedEnv)) = Some 2"
proof -
  have a: "existingIFrame (firstTick sharedEnv) \<noteq> None"
    by (simp add: firstTick_shared)
  have b: "''t1'' \<noteq> []" by simp
  have c: "\<not> (truthy (readSessionState noStateEnv (JStr ''abc'')) \<and>
              truthy (checkSessionIframeOf (readAuthWellKnownEndPoints noStateEnv (JStr ''abc''))))"
    by (simp add: env_defs)
  have d: "\<not> truthy (readSessionState noStateEnv (JStr ''abc''))"
    by (simp add: env_defs)
  have e: "published (firstTick sharedEnv) = []" "outstandingMessages (firstTick sharedEnv) = 1"
    "nextTimer (firstTick sharedEnv) = 2"
    by (simp_all add: firstTick_shared)
  from tick_without_session_state_publishes_changed[OF a b c] a d e
  show ?thesis by simp
qed

text \<open>
  The claim as written fails: with no session state stored, the first tick of a new
  service turns the observable value from \<open>false\<close> to \<open>true\<close>.
\<close>

theorem tick_without_session_state_counterexample:
  "existingIFrame (start noStateEnv 100000 ''t1'' initialService) \<noteq> None \<and>
   readSessionState noStateEnv (JStr ''abc'') = None \<and>
   \<not> checkSessionChanged (start noStateEnv 100000 ''t1'' initialService) \<and>
   checkSessionChanged
     (iframeLoaded noStateEnv 100100 (start noStateEnv 100000 ''t1'' initialService)) \<and>
   published
     (iframeLoaded noStateEnv 100100 (start noStateEnv 100000 ''t1'' initialService)) = [True]"
  by (simp add: step_defs env_defs)

subsection \<open>C2: the scenario of tenant \<open>t1\<close>\<close>

text \<open>
  C2. The scenario evaluated on the code. \<open>start\<close> passes \<open>(configId, clientId)\<close> to
  parameters declared \<open>(clientId, configId)\<close>. With the storage keyed by the tenant,
  the endpoints are looked up under \<open>abc\<close>, none are found and no probe is posted. With
  a storage that answers under every key, the probe is \<open>t1 s1\<close>, not \<open>abc s1\<close>. The
  listener then receives its bound string as \<open>e\<close> and the event as \<open>configId\<close>, so the
  \<open>changed\<close> message from the provider does not make \<open>serverStateChanged\<close> true.
\<close>

theorem scenario_probe_carries_config_id:
  "posted (firstTick tenantEnv) = [] \<and>
   posted (firstTick sharedEnv) = [(''t1 s1'', ''https://idp.example'')] \<and>
   \<not> serverStateChanged sharedEnv ''t1''
        (deliverMessage sharedEnv changedFromIdp (firstTick sharedEnv))"
  by (simp add: step_defs env_defs handler_defs)

subsection \<open>C3: a message from another origin\<close>

text \<open>
  C3 (as amended). If the stored check-session URL does not start with the message's
  origin, \<open>messageHandler\<close> changes exactly one field: it resets \<open>outstandingMessages\<close> to
  0. Nothing is logged, fired or published and \<open>checkSessionReceived\<close> keeps its value,
  whatever the payload is.
\<close>

theorem foreign_origin_only_resets_counter:
  "\<not> originMatches env e configId \<Longrightarrow>
     messageHandler env e configId s = s\<lparr>outstandingMessages := 0\<rparr>"
  by (simp add: messageHandler_def)

theorem foreign_origin_only_resets_counter_witness:
  "\<not> originMatches sharedEnv (JEvent changedFromElsewhere) (JStr ''t1'') \<and>
   messageHandler sharedEnv (JEvent changedFromElsewhere) (JStr ''t1'') (firstTick sharedEnv) =
     (firstTick sharedEnv)\<lparr>outstandingMessages := 0\<rparr>"
proof -
  have a: "\<not> originMatches sharedEnv (JEvent changedFromElsewhere) (JStr ''t1'')"
    by (simp add: handler_defs env_defs)
  from foreign_origin_only_resets_counter[OF a, of "firstTick sharedEnv"] a
  show ?thesis by simp
qed

text \<open>
  The claim as written fails: the counter is 1 after the first probe and 0 after a
  \<open>changed\<close> message from another origin.
\<close>

theorem foreign_origin_counterexample:
  "\<not> originMatches sharedEnv (JEvent changedFromElsewhere) (JStr ''t1'') \<and>
   outstandingMessages (firstTick sharedEnv) = 1 \<and>
   outstandingMessages
     (messageHandler sharedEnv (JEvent changedFromElsewhere) (JStr ''t1'') (firstTick sharedEnv)) = 0"
  unfolding firstTick_shared by (simp add: handler_defs env_defs)

subsection \<open>C4: rescheduling\<close>

text \<open>
  C4 (as amended). Whenever a tick's callback runs and \<open>new URL\<close> does not throw, it
  records a new handle and schedules the next tick after the heartbeat interval of 3000,
  whatever the probe step did; inside the iframe refresh window a tick runs that callback
  at once. When the refresh window has passed and no well-known endpoints are stored, the
  tick only logs a warning: the callback does not run, no probe is posted and no next
  tick is scheduled.
\<close>

theorem tick_reschedules_unless_endpoints_absent:
  "(urlParses env configId \<longrightarrow>
      scheduledHeartBeatRunning (onReady env clientId configId s) = Some (nextTimer s) \<and>
      timers (onReady env clientId configId s) =
        (nextTimer s, heartBeatInterval, clientId, configId) # timers s) \<and>
   (now < lastIFrameRefresh s + iframeRefreshInterval \<longrightarrow>
      pollServerSessionRecur env now clientId configId s = onReady env clientId configId s) \<and>
   (lastIFrameRefresh s + iframeRefreshInterval \<le> now \<and>
    readAuthWellKnownEndPoints env (JStr configId) = None \<longrightarrow>
      pollServerSessionRecur env now clientId configId s =
        logAt Warning ''init check session: authWellKnownEndpoints is undefined. Returning.'' s)"
  using onReady_schedules[of env configId clientId s]
  by (simp add: pollServerSessionRecur_def init_def)

theorem tick_reschedules_unless_endpoints_absent_witness:
  "urlParses sharedEnv ''abc'' \<and>
   103100 < lastIFrameRefresh (firstTick sharedEnv) + iframeRefreshInterval \<and>
   scheduledHeartBeatRunning (pollServerSessionRecur sharedEnv 103100 ''t1'' ''abc'' (firstTick sharedEnv))
     = Some 2 \<and>
   hd (timers (pollServerSessionRecur sharedEnv 103100 ''t1'' ''abc'' (firstTick sharedEnv)))
     = (2, 3000, ''t1'', ''abc'') \<and>
   lastIFrameRefresh initialService + iframeRefreshInterval \<le> 100000 \<and>
   readAuthWellKnownEndPoints noEndPointsEnv (JStr ''abc'') = None \<and>
   timers (pollServerSessionRecur noEndPointsEnv 100000 ''t1'' ''abc'' initialService) = [] \<and>
   scheduledHeartBeatRunning (pollServerSessionRecur noEndPointsEnv 100000 ''t1'' ''abc'' initialService)
     = None"
proof -
  have a: "urlParses sharedEnv ''abc''"
    by (simp add: urlParses_def env_defs)
  have b: "103100 < lastIFrameRefresh (firstTick sharedEnv) + iframeRefreshInterval"
    by (simp add: firstTick_shared iframeRefreshInterval_def)
  have c: "lastIFrameRefresh initialService + iframeRefreshInterval \<le> 100000"
    by (simp add: initialService_def iframeRefreshInterval_def)
  have d: "readAuthWellKnownEndPoints noEndPointsEnv (JStr ''abc'') = None"
    by (simp add: env_defs)
  have e: "nextTimer (firstTick sharedEnv) = 2" "heartBeatInterval = 3000"
    by (simp_all add: firstTick_shared heartBeatInterval_def)
  have f: "timers initialService = []" "scheduledHeartBeatRunning initialService = None"
    by (simp_all add: initialService_def)
  from tick_reschedules_unless_endpoints_absent
         [of sharedEnv "''abc''" "''t1''" "firstTick sharedEnv" 103100] a b e
  have g: "scheduledHeartBeatRunning
             (pollServerSessionRecur sharedEnv 103100 ''t1'' ''abc'' (firstTick sharedEnv)) = Some 2"
    "hd (timers (pollServerSessionRecur sharedEnv 103100 ''t1'' ''abc'' (firstTick sharedEnv)))
       = (2, 3000, ''t1'', ''abc'')"
    by simp_all
  from tick_reschedules_unless_endpoints_absent
         [of noEndPointsEnv "''abc''" "''t1''" initialService 100000] c d f
  have h: "timers (pollServerSessionRecur noEndPointsEnv 100000 ''t1'' ''abc'' initialService) = []"
    "scheduledHeartBeatRunning
       (pollServerSessionRecur noEndPointsEnv 100000 ''t1'' ''abc'' initialService) = None"
    by (simp_all add: logAt_def)
  from a b c d g h show ?thesis by simp
qed

text \<open>
  The claim as written fails: with no endpoints stored, \<open>start\<close> logs one warning and
  leaves no pending timeout, no recorded handle and no iframe whose load could resume
  the loop.
\<close>

theorem tick_reschedules_counterexample:
  "timers (start noEndPointsEnv 100000 ''t1'' initialService) = [] \<and>
   scheduledHeartBeatRunning (start noEndPointsEnv 100000 ''t1'' initialService) = None \<and>
   existingIFrame (start noEndPointsEnv 100000 ''t1'' initialService) = None \<and>
   posted (start noEndPointsEnv 100000 ''t1'' initialService) = [] \<and>
   map fst (logs (start noEndPointsEnv 100000 ''t1'' initialService)) = [Warning]"
  by (simp add: step_defs env_defs)

subsection \<open>C5: a message after \<open>stop\<close>\<close>

text \<open>
  C5 (as amended). \<open>messageHandler\<close> does not look at the timer handle. After \<open>stop\<close>,
  when no handle is recorded, a \<open>changed\<close> message that passes the origin and source
  checks still sets \<open>checkSessionReceived\<close>, publishes \<open>true\<close>, fires the event with the
  payload and resets the counter.
\<close>

theorem stale_changed_message_is_applied:
  assumes "originMatches env e configId" and "sourceMatches e s"
    and "get_data e = Some ''changed''"
  shows "\<not> truthy_handle (scheduledHeartBeatRunning (stop s)) \<and>
         checkSessionReceived (messageHandler env e configId (stop s)) \<and>
         published (messageHandler env e configId (stop s)) = True # published s \<and>
         fired (messageHandler env e configId (stop s)) = Some ''changed'' # fired s \<and>
         outstandingMessages (messageHandler env e configId (stop s)) = 0"
proof -
  have "sourceMatches e (stop s)"
    using assms(2) by (simp add: sourceMatches_def stop_keeps)
  with assms(1,3) show ?thesis
    by (simp add: messageHandler_def stop_keeps nextChanged_def fireEvent_def logAt_def)
qed

theorem stale_changed_message_is_applied_witness:
  "originMatches sharedEnv (JEvent changedFromIdp) (JStr ''t1'') \<and>
   sourceMatches (JEvent changedFromIdp) (firstTick sharedEnv) \<and>
   get_data (JEvent changedFromIdp) = Some ''changed'' \<and>
   \<not> truthy_handle (scheduledHeartBeatRunning (stop (firstTick sharedEnv))) \<and>
   checkSessionReceived
     (messageHandler sharedEnv (JEvent changedFromIdp) (JStr ''t1'') (stop (firstTick sharedEnv))) \<and>
   published
     (messageHandler sharedEnv (JEvent changedFromIdp) (JStr ''t1'') (stop (firstTick sharedEnv)))
     = [True]"
proof -
  have a: "originMatches sharedEnv (JEvent changedFromIdp) (JStr ''t1'')"
    by (simp add: handler_defs env_defs)
  have b: "sourceMatches (JEvent changedFromIdp) (firstTick sharedEnv)"
    by (simp add: firstTick_shared handler_defs)
  have c: "get_data (JEvent changedFromIdp) = Some ''changed''"
    by (simp add: changedFromIdp_def)
  have d: "published (firstTick sharedEnv) = []"
    by (simp add: firstTick_shared)
  from stale_changed_message_is_applied[OF a b c] a b c d show ?thesis by simp
qed

text \<open>
  The claim as written fails. Called with a valid \<open>changed\<close> event after \<open>stop\<close>, the
  handler sets the flag; and the message delivered through the registered listener
  after \<open>stop\<close> resets the counter from 1 to 0.
\<close>

theorem stale_message_counterexample:
  "\<not> truthy_handle (scheduledHeartBeatRunning (stop (firstTick sharedEnv))) \<and>
   \<not> checkSessionReceived (stop (firstTick sharedEnv)) \<and>
   checkSessionReceived
     (messageHandler sharedEnv (JEvent changedFromIdp) (JStr ''t1'') (stop (firstTick sharedEnv))) \<and>
   outstandingMessages (stop (firstTick sharedEnv)) = 1 \<and>
   outstandingMessages (deliverMessage sharedEnv changedFromIdp (stop (firstTick sharedEnv))) = 0"
  unfolding firstTick_shared
  by (simp add: handler_defs env_defs nextChanged_def fireEvent_def logAt_def)

subsection \<open>C6: what a new \<open>start\<close> resets\<close>

text \<open>
  C6 (as amended). A \<open>start\<close> with no handle recorded resets \<open>outstandingMessages\<close> to 0
  before its first tick, so that on return the counter equals the number of probes that
  tick posted. It leaves \<open>checkSessionReceived\<close>, and with it \<open>serverStateChanged\<close> of
  every tenant, as it was, and it never takes the change stream back to \<open>false\<close>: a
  value that was \<open>true\<close> before is \<open>true\<close> after.
\<close>

theorem fresh_start_resets_counter_only:
  assumes "\<not> truthy_handle (scheduledHeartBeatRunning s)"
  shows "checkSessionReceived (start env now configId s) = checkSessionReceived s \<and>
         serverStateChanged env tenant (start env now configId s) = serverStateChanged env tenant s \<and>
         (checkSessionChanged s \<longrightarrow> checkSessionChanged (start env now configId s)) \<and>
         outstandingMessages (start env now configId s) =
           length (posted (start env now configId s)) - length (posted s)"
proof -
  let ?s' = "pollServerSessionRecur env now configId
               (cfgClientId (getOpenIDConfiguration env configId)) (s\<lparr>outstandingMessages := 0\<rparr>)"
  have st: "start env now configId s = ?s'"
    using assms by (simp add: start_def pollServerSession_def)
  have fr: "checkSessionReceived ?s' = checkSessionReceived s"
    "checkSessionChanged s \<longrightarrow> checkSessionChanged ?s'"
    "outstandingMessages ?s' + length (posted s) = length (posted ?s')"
    using pollServerSessionRecur_frame[of env now configId
        "cfgClientId (getOpenIDConfiguration env configId)" "s\<lparr>outstandingMessages := 0\<rparr>"]
    by simp_all
  from fr(3) have "outstandingMessages ?s' = length (posted ?s') - length (posted s)"
    by linarith
  with fr(1,2) show ?thesis
    unfolding st by (simp add: serverStateChanged_def)
qed

theorem fresh_start_resets_counter_only_witness:
  "\<not> truthy_handle (scheduledHeartBeatRunning (stop (firstTick noStateEnv))) \<and>
   checkSessionChanged (stop (firstTick noStateEnv)) \<and>
   checkSessionChanged (start noStateEnv 200000 ''t1'' (stop (firstTick noStateEnv))) \<and>
   checkSessionReceived (start noStateEnv 200000 ''t1'' (stop (firstTick noStateEnv))) =
     checkSessionReceived (stop (firstTick noStateEnv)) \<and>
   outstandingMessages (start noStateEnv 200000 ''t1'' (stop (firstTick noStateEnv))) =
     length (posted (start noStateEnv 200000 ''t1'' (stop (firstTick noStateEnv)))) -
     length (posted (stop (firstTick noStateEnv)))"
proof -
  have a: "\<not> truthy_handle (scheduledHeartBeatRunning (stop (firstTick noStateEnv)))"
    by (simp add: stop_keeps)
  have b: "checkSessionChanged (stop (firstTick noStateEnv))"
    by (simp add: stop_keeps firstTick_noState)
  from fresh_start_resets_counter_only[OF a, of noStateEnv 200000 "''t1''" "''t1''"] a b
  show ?thesis by simp
qed

text \<open>
  The claim as written fails. The change stream is \<open>true\<close> after the first tick without
  a session state and is still \<open>true\<close> after \<open>stop\<close> and a new \<open>start\<close>; and a flag set by
  the handler after \<open>stop\<close> survives the new \<open>start\<close>.
\<close>

theorem fresh_start_counterexample:
  "checkSessionChanged (firstTick noStateEnv) \<and>
   \<not> truthy_handle (scheduledHeartBeatRunning (stop (firstTick noStateEnv))) \<and>
   checkSessionChanged (start noStateEnv 200000 ''t1'' (stop (firstTick noStateEnv))) \<and>
   published (start noStateEnv 200000 ''t1'' (stop (firstTick noStateEnv))) = [True] \<and>
   serverStateChanged sharedEnv ''t1''
     (start sharedEnv 200000 ''t1''
        (messageHandler sharedEnv (JEvent changedFromIdp) (JStr ''t1'') (stop (firstTick sharedEnv))))"
  unfolding firstTick_shared firstTick_noState
  by (simp add: handler_defs env_defs step_defs)

subsection \<open>C7: tenants\<close>




subsection \<open>C8: unanswered probes\<close>

text \<open>
  C8 (as amended). While a heartbeat loop is under way whose ticks can post a probe,
  take any run of timeouts, load events and messages, and one more event \<open>e\<close>.
  The loop is still under way afterwards and no fault has been raised.
  If \<open>e\<close> is a message, whether the handler accepts it or not, the counter is 0
  afterwards and no error is logged. If \<open>e\<close> reaches the tick's callback, the counter
  goes up by one and exactly one error is logged if the counter then exceeds 3, none
  otherwise. Any other event leaves the counter and the errors as they were.
  So the counter is the number of probes posted since the last message of any kind,
  and in a run without messages the number of errors logged is the number of counter
  values above 3 that were reached: counted from 0, one error at the fourth tick and
  one at each later tick.
\<close>

theorem unanswered_probes_escalate:
  assumes "beating env clientId configId s"
  shows "beating env clientId configId (runEvents env (es @ [e]) s) \<and>
         faults (runEvents env (es @ [e]) s) = faults s \<and>
         (isMessage e \<longrightarrow>
            outstandingMessages (runEvents env (es @ [e]) s) = 0 \<and>
            errorCount (runEvents env (es @ [e]) s) = errorCount (runEvents env es s)) \<and>
         (callbackRuns (runEvents env es s) e \<longrightarrow>
            outstandingMessages (runEvents env (es @ [e]) s) =
              Suc (outstandingMessages (runEvents env es s)) \<and>
            errorCount (runEvents env (es @ [e]) s) =
              errorCount (runEvents env es s) +
                (if 3 < outstandingMessages (runEvents env (es @ [e]) s) then 1 else 0)) \<and>
         (\<not> isMessage e \<and> \<not> callbackRuns (runEvents env es s) e \<longrightarrow>
            outstandingMessages (runEvents env (es @ [e]) s) =
              outstandingMessages (runEvents env es s) \<and>
            errorCount (runEvents env (es @ [e]) s) = errorCount (runEvents env es s)) \<and>
         (list_all (\<lambda>x. \<not> isMessage x) (es @ [e]) \<longrightarrow>
            errorCount (runEvents env (es @ [e]) s) =
              errorCount s + (outstandingMessages (runEvents env (es @ [e]) s) - 3)
                - (outstandingMessages s - 3))"
proof -
  from runEvents_beating[OF assms, of es]
  have b: "beating env clientId configId (runEvents env es s)"
    and f: "faults (runEvents env es s) = faults s" by simp_all
  have r: "runEvents env (es @ [e]) s = dispatch env e (runEvents env es s)"
    by (simp add: runEvents_append)
  have mf: "list_all (\<lambda>x. \<not> isMessage x) (es @ [e]) \<longrightarrow>
            errorCount (runEvents env (es @ [e]) s) =
              errorCount s + (outstandingMessages (runEvents env (es @ [e]) s) - 3)
                - (outstandingMessages s - 3)"
  proof
    assume "list_all (\<lambda>x. \<not> isMessage x) (es @ [e])"
    from runEvents_messageFree[OF assms this] show
      "errorCount (runEvents env (es @ [e]) s) =
              errorCount s + (outstandingMessages (runEvents env (es @ [e]) s) - 3)
                - (outstandingMessages s - 3)"
      by linarith
  qed
  from dispatch_law[OF b, of e] f mf show ?thesis
    unfolding r by simp
qed


text \<open>
  After \<open>start\<close> and the first probe the counter is 1. Two more timeouts bring it to 3
  without an error. Then: a third timeout inside the refresh window brings it to 4 and
  logs the error; a message from another origin brings it to 0; a third timeout after
  the refresh window leaves it at 3 until the iframe has loaded, and the load brings
  it to 4 and logs the error.
\<close>

theorem unanswered_probes_escalate_witness:
  "beating sharedEnv ''t1'' ''abc'' (firstTick sharedEnv) \<and>
   outstandingMessages
     (runEvents sharedEnv [TimerExpires 1 103100, TimerExpires 2 106100] (firstTick sharedEnv)) = 3 \<and>
   errorCount
     (runEvents sharedEnv [TimerExpires 1 103100, TimerExpires 2 106100] (firstTick sharedEnv)) = 0 \<and>
   outstandingMessages
     (runEvents sharedEnv ([TimerExpires 1 103100, TimerExpires 2 106100] @ [TimerExpires 3 109100])
        (firstTick sharedEnv)) = 4 \<and>
   errorCount
     (runEvents sharedEnv ([TimerExpires 1 103100, TimerExpires 2 106100] @ [TimerExpires 3 109100])
        (firstTick sharedEnv)) = 1 \<and>
   faults
     (runEvents sharedEnv ([TimerExpires 1 103100, TimerExpires 2 106100] @ [TimerExpires 3 109100])
        (firstTick sharedEnv)) = [] \<and>
   outstandingMessages
     (runEvents sharedEnv
        ([TimerExpires 1 103100, TimerExpires 2 106100] @ [MessageArrives changedFromElsewhere])
        (firstTick sharedEnv)) = 0 \<and>
   outstandingMessages
     (runEvents sharedEnv ([TimerExpires 1 103100, TimerExpires 2 106100] @ [TimerExpires 3 160100])
        (firstTick sharedEnv)) = 3 \<and>
   errorCount
     (runEvents sharedEnv ([TimerExpires 1 103100, TimerExpires 2 106100] @ [TimerExpires 3 160100])
        (firstTick sharedEnv)) = 0 \<and>
   outstandingMessages
     (runEvents sharedEnv
        ([TimerExpires 1 103100, TimerExpires 2 106100, TimerExpires 3 160100] @ [IframeLoads 160200])
        (firstTick sharedEnv)) = 4 \<and>
   errorCount
     (runEvents sharedEnv
        ([TimerExpires 1 103100, TimerExpires 2 106100, TimerExpires 3 160100] @ [IframeLoads 160200])
        (firstTick sharedEnv)) = 1 \<and>
   list_all (\<lambda>x. \<not> isMessage x)
     ([TimerExpires 1 103100, TimerExpires 2 106100] @ [TimerExpires 3 109100]) \<and>
   errorCount
     (runEvents sharedEnv ([TimerExpires 1 103100, TimerExpires 2 106100] @ [TimerExpires 3 109100])
        (firstTick sharedEnv)) = 0 + (4 - 3) - (1 - 3)"
proof -
  let ?two = "[TimerExpires 1 103100, TimerExpires 2 106100]"
  let ?late = "[TimerExpires 1 103100, TimerExpires 2 106100, TimerExpires 3 160100]"
  have two: "outstandingMessages (runEvents sharedEnv ?two (firstTick sharedEnv)) = 3"
    "errorCount (runEvents sharedEnv ?two (firstTick sharedEnv)) = 0"
    unfolding twoBeats_shared by (simp_all add: errorCount_def)
  have late: "outstandingMessages (runEvents sharedEnv ?late (firstTick sharedEnv)) = 3"
    "errorCount (runEvents sharedEnv ?late (firstTick sharedEnv)) = 0"
    unfolding lateBeat_shared by (simp_all add: errorCount_def)
  have f0: "faults (firstTick sharedEnv) = []"
    by (simp add: firstTick_shared)
  have m: "isMessage (MessageArrives changedFromElsewhere)" by simp
  have c1: "callbackRuns (runEvents sharedEnv ?two (firstTick sharedEnv)) (TimerExpires 3 109100)"
    unfolding twoBeats_shared by (simp add: iframeRefreshInterval_def)
  have c2: "\<not> isMessage (TimerExpires 3 160100) \<and>
            \<not> callbackRuns (runEvents sharedEnv ?two (firstTick sharedEnv)) (TimerExpires 3 160100)"
    unfolding twoBeats_shared by (simp add: iframeRefreshInterval_def)
  have c3: "callbackRuns (runEvents sharedEnv ?late (firstTick sharedEnv)) (IframeLoads 160200)"
    unfolding lateBeat_shared by (simp add: subscriberOpen_def)
  note quiet = runEvents.simps callbackRuns.simps isMessage.simps append.simps
  from unanswered_probes_escalate[OF beating_firstTick, of ?two "TimerExpires 3 109100"] c1 two f0
  have a: "outstandingMessages
             (runEvents sharedEnv (?two @ [TimerExpires 3 109100]) (firstTick sharedEnv)) = 4"
    "errorCount (runEvents sharedEnv (?two @ [TimerExpires 3 109100]) (firstTick sharedEnv)) = 1"
    "faults (runEvents sharedEnv (?two @ [TimerExpires 3 109100]) (firstTick sharedEnv)) = []"
    by (simp_all del: quiet)
  from unanswered_probes_escalate[OF beating_firstTick, of ?two "MessageArrives changedFromElsewhere"] m
  have b: "outstandingMessages
             (runEvents sharedEnv (?two @ [MessageArrives changedFromElsewhere]) (firstTick sharedEnv)) = 0"
    by (simp del: quiet)
  from unanswered_probes_escalate[OF beating_firstTick, of ?two "TimerExpires 3 160100"] c2 two
  have c: "outstandingMessages
             (runEvents sharedEnv (?two @ [TimerExpires 3 160100]) (firstTick sharedEnv)) = 3"
    "errorCount (runEvents sharedEnv (?two @ [TimerExpires 3 160100]) (firstTick sharedEnv)) = 0"
    by (simp_all del: quiet)
  from unanswered_probes_escalate[OF beating_firstTick, of ?late "IframeLoads 160200"] c3 late
  have d: "outstandingMessages
             (runEvents sharedEnv (?late @ [IframeLoads 160200]) (firstTick sharedEnv)) = 4"
    "errorCount (runEvents sharedEnv (?late @ [IframeLoads 160200]) (firstTick sharedEnv)) = 1"
    by (simp_all del: quiet)
  have mf: "list_all (\<lambda>x. \<not> isMessage x) (?two @ [TimerExpires 3 109100])" by simp
  have o: "outstandingMessages (firstTick sharedEnv) = 1" "errorCount (firstTick sharedEnv) = 0"
    by (simp_all add: firstTick_shared errorCount_def)
  from unanswered_probes_escalate[OF beating_firstTick, of ?two "TimerExpires 3 109100"] mf
  have "errorCount (runEvents sharedEnv (?two @ [TimerExpires 3 109100]) (firstTick sharedEnv)) =
          errorCount (firstTick sharedEnv) +
            (outstandingMessages
               (runEvents sharedEnv (?two @ [TimerExpires 3 109100]) (firstTick sharedEnv)) - 3) -
            (outstandingMessages (firstTick sharedEnv) - 3)"
    by (simp del: quiet)
  with a(1) o
  have g: "errorCount (runEvents sharedEnv (?two @ [TimerExpires 3 109100]) (firstTick sharedEnv)) =
             0 + (4 - 3) - (1 - 3)"
    by (simp del: quiet)
  from beating_firstTick two a b c d mf g show ?thesis by blast
qed

text \<open>
  The claim as written fails. Four ticks post four probes and no message is accepted
  (nothing is fired, the flag is false), yet the fourth tick logs no error: a message
  from another origin, delivered after the third probe, has reset the counter.
\<close>

theorem unanswered_ticks_counterexample:
  "length (posted (runEvents sharedEnv
      [TimerExpires 1 103100, TimerExpires 2 106100, MessageArrives changedFromElsewhere,
       TimerExpires 3 109100] (firstTick sharedEnv))) = 4 \<and>
   fired (runEvents sharedEnv
      [TimerExpires 1 103100, TimerExpires 2 106100, MessageArrives changedFromElsewhere,
       TimerExpires 3 109100] (firstTick sharedEnv)) = [] \<and>
   \<not> checkSessionReceived (runEvents sharedEnv
      [TimerExpires 1 103100, TimerExpires 2 106100, MessageArrives changedFromElsewhere,
       TimerExpires 3 109100] (firstTick sharedEnv)) \<and>
   outstandingMessages (runEvents sharedEnv
      [TimerExpires 1 103100, TimerExpires 2 106100, MessageArrives changedFromElsewhere,
       TimerExpires 3 109100] (firstTick sharedEnv)) = 1 \<and>
   errorCount (runEvents sharedEnv
      [TimerExpires 1 103100, TimerExpires 2 106100, MessageArrives changedFromElsewhere,
       TimerExpires 3 109100] (firstTick sharedEnv)) = 0"
  unfolding firstTick_shared
  by (simp add: timerFires_def step_defs env_defs handler_defs errorCount_def)

subsection \<open>C9: \<open>start\<close> while running\<close>

text \<open>
  C9. While a timer handle is recorded, \<open>start\<close> returns at once for every tenant: the
  whole state, and with it the counter, the handle, the pending timeouts and
  \<open>checkSessionReceived\<close>, is what it was.
\<close>

theorem start_idempotent_while_running:
  "truthy_handle (scheduledHeartBeatRunning s) \<Longrightarrow> start env now configId s = s"
  by (simp add: start_def)

theorem start_idempotent_while_running_witness:
  "truthy_handle (scheduledHeartBeatRunning (firstTick sharedEnv)) \<and>
   start sharedEnv 103100 ''t1'' (firstTick sharedEnv) = firstTick sharedEnv"
proof -
  have h: "truthy_handle (scheduledHeartBeatRunning (firstTick sharedEnv))"
    by (simp add: firstTick_shared)
  with start_idempotent_while_running[OF h, of sharedEnv 103100 "''t1''"] show ?thesis by simp
qed

subsection \<open>C10: \<open>stop\<close> before the first callback\<close>

text \<open>
  C10. Let \<open>start\<close> be called with no handle recorded, outside the iframe refresh window
  and with endpoints stored, so that its first tick waits for the iframe to load. Then
  \<open>start\<close> records no handle and a \<open>stop\<close> that follows changes nothing. When the iframe
  loads, the callback still runs: it records the handle and leaves the timeout pending.
  When that timeout expires the next tick runs, and inside the refresh window it
  reaches the callback, which records the following handle. A \<open>stop\<close> called after
  the first callback, when the handle is recorded, does cancel: the timeout is no
  longer pending and its expiry does nothing.
\<close>

theorem stop_before_first_callback_is_noop:
  assumes "\<not> truthy_handle (scheduledHeartBeatRunning s)"
    and "lastIFrameRefresh s + iframeRefreshInterval \<le> now"
    and "readAuthWellKnownEndPoints env (JStr (cfgClientId (getOpenIDConfiguration env configId))) \<noteq> None"
    and "urlParses env (cfgClientId (getOpenIDConfiguration env configId))"
    and "nextTimer s \<noteq> 0"
  shows "scheduledHeartBeatRunning (start env now configId s) = scheduledHeartBeatRunning s \<and>
         stop (start env now configId s) = start env now configId s \<and>
         scheduledHeartBeatRunning (iframeLoaded env later (stop (start env now configId s))) =
           Some (nextTimer s) \<and>
         timers (iframeLoaded env later (stop (start env now configId s))) =
           (nextTimer s, heartBeatInterval, configId,
            cfgClientId (getOpenIDConfiguration env configId)) # timers s \<and>
         timerFires env t (nextTimer s)
             (iframeLoaded env later (stop (start env now configId s))) =
           pollServerSessionRecur env t configId (cfgClientId (getOpenIDConfiguration env configId))
             ((iframeLoaded env later (stop (start env now configId s)))
                \<lparr>timers := filter (\<lambda>x. fst x \<noteq> nextTimer s) (timers s)\<rparr>) \<and>
         (t < later + iframeRefreshInterval \<longrightarrow>
            scheduledHeartBeatRunning
              (timerFires env t (nextTimer s)
                 (iframeLoaded env later (stop (start env now configId s)))) =
              Some (Suc (nextTimer s)) \<and>
            timers
              (timerFires env t (nextTimer s)
                 (iframeLoaded env later (stop (start env now configId s)))) =
              (Suc (nextTimer s), heartBeatInterval, configId,
               cfgClientId (getOpenIDConfiguration env configId))
                # filter (\<lambda>x. fst x \<noteq> nextTimer s) (timers s)) \<and>
         scheduledHeartBeatRunning
           (stop (iframeLoaded env later (stop (start env now configId s)))) = None \<and>
         timers (stop (iframeLoaded env later (stop (start env now configId s)))) =
           filter (\<lambda>x. fst x \<noteq> nextTimer s) (timers s) \<and>
         timerFires env t (nextTimer s)
             (stop (iframeLoaded env later (stop (start env now configId s)))) =
           stop (iframeLoaded env later (stop (start env now configId s)))"
proof -
  let ?cid = "cfgClientId (getOpenIDConfiguration env configId)"
  from assms(3) obtain wk where wk: "readAuthWellKnownEndPoints env (JStr ?cid) = Some wk"
    by auto
  let ?s1 = "start env now configId s"
  have fields: "scheduledHeartBeatRunning ?s1 = scheduledHeartBeatRunning s"
    "nextTimer ?s1 = nextTimer s" "timers ?s1 = timers s"
    "\<exists>f. existingIFrame ?s1 = Some f \<and> onload f = Some (True, configId, ?cid)"
    using assms(1,2) wk
    by (auto simp: start_def pollServerSession_def pollServerSessionRecur_def init_def Let_def
        setOnload_def getOrCreateIframe_def bindMessageEventToIframe_def locationReplace_def
        logAt_def split: option.splits)
  have st: "stop ?s1 = ?s1"
    using assms(1) fields(1) by (simp add: stop_def)
  from fields(4) obtain f where f: "existingIFrame ?s1 = Some f"
    "onload f = Some (True, configId, ?cid)" by blast
  let ?s2 = "?s1\<lparr>lastIFrameRefresh := later,
                   existingIFrame := Some (f\<lparr>onload := Some (False, configId, ?cid)\<rparr>)\<rparr>"
  let ?s3 = "iframeLoaded env later ?s1"
  have il: "?s3 = onReady env configId ?cid ?s2"
    using f by (simp add: iframeLoaded_def)
  have s3: "scheduledHeartBeatRunning ?s3 = Some (nextTimer s)"
    "timers ?s3 = (nextTimer s, heartBeatInterval, configId, ?cid) # timers s"
    "nextTimer ?s3 = Suc (nextTimer s)" "lastIFrameRefresh ?s3 = later"
    using onReady_schedules[OF assms(4), of configId ?s2]
      onReady_after[OF assms(4), of configId ?s2] fields
    unfolding il by simp_all
  let ?s3' = "?s3\<lparr>timers := filter (\<lambda>x. fst x \<noteq> nextTimer s) (timers s)\<rparr>"
  have tf: "timerFires env t (nextTimer s) ?s3 = pollServerSessionRecur env t configId ?cid ?s3'"
    by (simp add: timerFires_def s3)
  have again: "t < later + iframeRefreshInterval \<longrightarrow>
      scheduledHeartBeatRunning (timerFires env t (nextTimer s) ?s3) = Some (Suc (nextTimer s)) \<and>
      timers (timerFires env t (nextTimer s) ?s3) =
        (Suc (nextTimer s), heartBeatInterval, configId, ?cid)
          # filter (\<lambda>x. fst x \<noteq> nextTimer s) (timers s)"
  proof
    assume w: "t < later + iframeRefreshInterval"
    have "pollServerSessionRecur env t configId ?cid ?s3' = onReady env configId ?cid ?s3'"
      using w s3(4) by (simp add: pollServerSessionRecur_def init_def)
    with onReady_schedules[OF assms(4), of configId ?s3'] s3(3)
    show "scheduledHeartBeatRunning (timerFires env t (nextTimer s) ?s3) = Some (Suc (nextTimer s)) \<and>
      timers (timerFires env t (nextTimer s) ?s3) =
        (Suc (nextTimer s), heartBeatInterval, configId, ?cid)
          # filter (\<lambda>x. fst x \<noteq> nextTimer s) (timers s)"
      unfolding tf by simp
  qed
  have sp: "scheduledHeartBeatRunning (stop ?s3) = None"
    "timers (stop ?s3) = filter (\<lambda>x. fst x \<noteq> nextTimer s) (timers s)"
    using assms(5) by (simp_all add: stop_def clearScheduledHeartBeat_def s3)
  have dead: "timerFires env t (nextTimer s) (stop ?s3) = stop ?s3"
    by (simp add: timerFires_def sp find_filtered)
  from fields(1) st s3(1,2) tf again sp dead show ?thesis
    unfolding st by simp
qed

theorem stop_before_first_callback_is_noop_witness:
  "\<not> truthy_handle (scheduledHeartBeatRunning initialService) \<and>
   stop (start sharedEnv 100000 ''t1'' initialService) = start sharedEnv 100000 ''t1'' initialService \<and>
   scheduledHeartBeatRunning
     (iframeLoaded sharedEnv 100100 (stop (start sharedEnv 100000 ''t1'' initialService))) = Some 1 \<and>
   timers (iframeLoaded sharedEnv 100100 (stop (start sharedEnv 100000 ''t1'' initialService)))
     = [(1, 3000, ''t1'', ''abc'')] \<and>
   103100 < 100100 + iframeRefreshInterval \<and>
   scheduledHeartBeatRunning
     (timerFires sharedEnv 103100 1
        (iframeLoaded sharedEnv 100100 (stop (start sharedEnv 100000 ''t1'' initialService)))) = Some 2 \<and>
   timers
     (timerFires sharedEnv 103100 1
        (iframeLoaded sharedEnv 100100 (stop (start sharedEnv 100000 ''t1'' initialService))))
     = [(2, 3000, ''t1'', ''abc'')] \<and>
   timers (stop (iframeLoaded sharedEnv 100100 (stop (start sharedEnv 100000 ''t1'' initialService))))
     = []"
proof -
  have a: "\<not> truthy_handle (scheduledHeartBeatRunning initialService)"
    by (simp add: initialService_def)
  have b: "lastIFrameRefresh initialService + iframeRefreshInterval \<le> 100000"
    by (simp add: initialService_def iframeRefreshInterval_def)
  have c: "readAuthWellKnownEndPoints sharedEnv
             (JStr (cfgClientId (getOpenIDConfiguration sharedEnv ''t1''))) \<noteq> None"
    by (simp add: env_defs)
  have d: "urlParses sharedEnv (cfgClientId (getOpenIDConfiguration sharedEnv ''t1''))"
    by (simp add: urlParses_def env_defs)
  have n: "nextTimer initialService \<noteq> 0"
    by (simp add: initialService_def)
  have w: "(103100::nat) < 100100 + iframeRefreshInterval"
    by (simp add: iframeRefreshInterval_def)
  have e: "cfgClientId (getOpenIDConfiguration sharedEnv ''t1'') = ''abc''"
    "nextTimer initialService = 1" "timers initialService = []" "heartBeatInterval = 3000"
    by (simp_all add: env_defs initialService_def heartBeatInterval_def)
  from stop_before_first_callback_is_noop[OF a b c d n, of 100100 103100] w
  show ?thesis unfolding e using a by (elim conjE) simp
qed


end
